theory Spec2Isabelle
  imports Complex_Main
begin

text \<open>
  The repository holds three copies of one Express server that forwards text and
  spreadsheets to a local Ollama backend: \<open>src/server.js\<close> up to line 205 (no
  spreadsheet handling), \<open>src/server.js\<close> from line 206 on (the AI rows replace the
  original rows) and \<open>src/unnamed/part_000\<close> (the AI fields are laid over the original
  rows). Where the copies differ, the name of a definition says which one it embeds:
  \<open>_server_first\<close>, \<open>_server\<close> and \<open>_part000\<close>.
\<close>

section \<open>JavaScript strings\<close>

text \<open>
  A JavaScript string is modelled as a \<open>string\<close> (a list of 8-bit characters), so the
  texts covered are the ones whose code units are below 256. Indices are \<open>int\<close>, because
  \<open>indexOf\<close> and \<open>lastIndexOf\<close> answer \<open>-1\<close> when the character does not occur.
\<close>

fun indexOf :: "string \<Rightarrow> char \<Rightarrow> int" where
  "indexOf [] c = - 1"
| "indexOf (x # xs) c =
     (if x = c then 0
      else (let r = indexOf xs c in if r = - 1 then - 1 else r + 1))"

fun lastIndexOf :: "string \<Rightarrow> char \<Rightarrow> int" where
  "lastIndexOf [] c = - 1"
| "lastIndexOf (x # xs) c =
     (let r = lastIndexOf xs c
      in if r \<noteq> - 1 then r + 1 else if x = c then 0 else - 1)"

definition substring :: "string \<Rightarrow> int \<Rightarrow> int \<Rightarrow> string" where
  \<comment> \<open>\<open>String.prototype.substring\<close>: both indices are clamped to \<open>[0, length]\<close> and
      swapped when the first is the larger.\<close>
  "substring s a b =
     (let n = int (length s);
          a' = max 0 (min a n);
          b' = max 0 (min b n);
          lo = min a' b';
          hi = max a' b'
      in take (nat (hi - lo)) (drop (nat lo) s))"

definition isWhiteSpace :: "char \<Rightarrow> bool" where
  \<comment> \<open>The code units below 256 that \<open>String.prototype.trim\<close> strips: tab, line
      feed, vertical tab, form feed, carriage return, space and no-break space.\<close>
  "isWhiteSpace c \<longleftrightarrow>
     c \<in> {CHR 0x09, CHR 0x0A, CHR 0x0B, CHR 0x0C, CHR 0x0D, CHR 0x20, CHR 0xA0}"

definition trim :: "string \<Rightarrow> string" where
  "trim s = rev (dropWhile isWhiteSpace (rev (dropWhile isWhiteSpace s)))"

section \<open>JSON values and JavaScript objects\<close>

text \<open>
  The values \<open>JSON.parse\<close> produces. An object is an association list with distinct keys
  in insertion order (the order of array-index-like keys, which JavaScript lists first,
  is not modelled). Numbers are reals: the program never computes with a cell value, it
  only tests it for truthiness.
\<close>

datatype json =
    JNull
  | JBool bool
  | JNum real
  | JStr string
  | JArr "json list"
  | JObj "(string \<times> json) list"

fun truthy :: "json \<Rightarrow> bool" where
  "truthy JNull = False"
| "truthy (JBool b) = b"
| "truthy (JNum r) = (r \<noteq> 0)"
| "truthy (JStr s) = (s \<noteq> [])"
| "truthy (JArr xs) = True"
| "truthy (JObj kvs) = True"

fun setProp :: "(string \<times> json) list \<Rightarrow> string \<Rightarrow> json \<Rightarrow> (string \<times> json) list" where
  \<comment> \<open>\<open>obj[k] = v\<close>: an existing key keeps its position, a new key goes last.\<close>
  "setProp [] k v = [(k, v)]"
| "setProp ((k', v') # kvs) k v =
     (if k' = k then (k, v) # kvs else (k', v') # setProp kvs k v)"

fun getProp :: "json \<Rightarrow> string \<Rightarrow> json option" where
  \<comment> \<open>\<open>x[k]\<close> for a key that no built-in prototype defines (every key the program reads
      is one): an own property of an object, \<open>undefined\<close> (\<open>None\<close>) otherwise.\<close>
  "getProp (JObj kvs) k = map_of kvs k"
| "getProp _ k = None"

section \<open>A reader for JSON texts\<close>

text \<open>
  \<open>JSON.parse\<close> belongs to the platform. The functions of the program take the parser as
  a parameter, and the general theorems hold for every parser. \<open>JSON_parse\<close> below reads
  the fragment of the JSON grammar made of arrays, objects, strings (with the
  single-character escapes), integer literals, \<open>true\<close>, \<open>false\<close> and \<open>null\<close>; it is used
  to run the program on concrete replies. Number literals with a fraction or an exponent
  and \<open>\u\<close> escapes are outside the fragment and are refused.
\<close>

datatype token =
    TLBrack | TRBrack | TLBrace | TRBrace | TComma | TColon
  | TStr string | TNum int | TTrue | TFalse | TNull

datatype lexst = LIdle | LStr string | LEsc string | LWord string

definition isJsonWs :: "char \<Rightarrow> bool" where
  "isJsonWs c \<longleftrightarrow> c \<in> {CHR 0x20, CHR 0x09, CHR 0x0A, CHR 0x0D}"

fun structural :: "char \<Rightarrow> token option" where
  "structural c =
     (if c = CHR ''['' then Some TLBrack
      else if c = CHR '']'' then Some TRBrack
      else if c = CHR ''{'' then Some TLBrace
      else if c = CHR ''}'' then Some TRBrace
      else if c = CHR '','' then Some TComma
      else if c = CHR '':'' then Some TColon
      else None)"

fun unescape :: "char \<Rightarrow> char option" where
  "unescape c =
     (if c = CHR 0x22 then Some (CHR 0x22)
      else if c = CHR 0x5C then Some (CHR 0x5C)
      else if c = CHR ''/'' then Some (CHR ''/'')
      else if c = CHR ''b'' then Some (CHR 0x08)
      else if c = CHR ''f'' then Some (CHR 0x0C)
      else if c = CHR ''n'' then Some (CHR 0x0A)
      else if c = CHR ''r'' then Some (CHR 0x0D)
      else if c = CHR ''t'' then Some (CHR 0x09)
      else None)"

definition digitVal :: "char \<Rightarrow> nat option" where
  "digitVal c =
     (let n = (of_char c :: nat) in if 48 \<le> n \<and> n \<le> 57 then Some (n - 48) else None)"

fun digitsVal :: "nat \<Rightarrow> string \<Rightarrow> nat option" where
  "digitsVal acc [] = Some acc"
| "digitsVal acc (c # cs) =
     (case digitVal c of None \<Rightarrow> None | Some d \<Rightarrow> digitsVal (10 * acc + d) cs)"

definition naturalLit :: "string \<Rightarrow> nat option" where
  \<comment> \<open>\<open>0\<close>, or a non-empty digit sequence that does not start with \<open>0\<close>.\<close>
  "naturalLit w =
     (if w = [] then None
      else if hd w = CHR ''0'' \<and> tl w \<noteq> [] then None
      else digitsVal 0 w)"

definition scalarToken :: "string \<Rightarrow> token option" where
  "scalarToken w =
     (if w = ''true'' then Some TTrue
      else if w = ''false'' then Some TFalse
      else if w = ''null'' then Some TNull
      else if w \<noteq> [] \<and> hd w = CHR ''-''
        then map_option (\<lambda>n. TNum (- int n)) (naturalLit (tl w))
      else map_option (\<lambda>n. TNum (int n)) (naturalLit w))"

fun lexJson :: "lexst \<Rightarrow> string \<Rightarrow> token list option" where
  "lexJson LIdle [] = Some []"
| "lexJson LIdle (c # cs) =
     (if isJsonWs c then lexJson LIdle cs
      else if c = CHR 0x22 then lexJson (LStr []) cs
      else (case structural c of
              Some t \<Rightarrow> map_option (Cons t) (lexJson LIdle cs)
            | None \<Rightarrow> lexJson (LWord [c]) cs))"
| "lexJson (LStr acc) [] = None"
| "lexJson (LStr acc) (c # cs) =
     (if c = CHR 0x22 then map_option (Cons (TStr (rev acc))) (lexJson LIdle cs)
      else if c = CHR 0x5C then lexJson (LEsc acc) cs
      else if (of_char c :: nat) < 32 then None
      else lexJson (LStr (c # acc)) cs)"
| "lexJson (LEsc acc) [] = None"
| "lexJson (LEsc acc) (c # cs) =
     (case unescape c of None \<Rightarrow> None | Some d \<Rightarrow> lexJson (LStr (d # acc)) cs)"
| "lexJson (LWord acc) [] = map_option (\<lambda>t. [t]) (scalarToken (rev acc))"
| "lexJson (LWord acc) (c # cs) =
     (if isJsonWs c
        then (case scalarToken (rev acc) of
                None \<Rightarrow> None
              | Some t \<Rightarrow> map_option (Cons t) (lexJson LIdle cs))
      else if c = CHR 0x22 then None
      else (case structural c of
              Some s \<Rightarrow>
                (case scalarToken (rev acc) of
                   None \<Rightarrow> None
                 | Some t \<Rightarrow> map_option (\<lambda>ts. t # s # ts) (lexJson LIdle cs))
            | None \<Rightarrow> lexJson (LWord (c # acc)) cs))"

datatype frame = FArr "json list" | FObj "(string \<times> json) list" string

datatype mode = MValue | MFirst | MKeyFirst | MKey | MColon string | MAfter | MDone json

fun deliver :: "json \<Rightarrow> frame list \<Rightarrow> frame list \<times> mode" where
  "deliver v [] = ([], MDone v)"
| "deliver v (FArr xs # st) = (FArr (v # xs) # st, MAfter)"
| "deliver v (FObj kvs k # st) = (FObj (setProp kvs k v) k # st, MAfter)"

fun startValue :: "frame list \<Rightarrow> token \<Rightarrow> (frame list \<times> mode) option" where
  "startValue st TLBrack = Some (FArr [] # st, MFirst)"
| "startValue st TLBrace = Some (FObj [] [] # st, MKeyFirst)"
| "startValue st (TStr s) = Some (deliver (JStr s) st)"
| "startValue st (TNum n) = Some (deliver (JNum (of_int n)) st)"
| "startValue st TTrue = Some (deliver (JBool True) st)"
| "startValue st TFalse = Some (deliver (JBool False) st)"
| "startValue st TNull = Some (deliver JNull st)"
| "startValue st _ = None"

fun startKey :: "frame list \<Rightarrow> token \<Rightarrow> (frame list \<times> mode) option" where
  "startKey st (TStr k) = Some (st, MColon k)"
| "startKey st _ = None"

fun parseStep :: "frame list \<Rightarrow> mode \<Rightarrow> token \<Rightarrow> (frame list \<times> mode) option" where
  "parseStep st MValue t = startValue st t"
| "parseStep (FArr xs # st) MFirst TRBrack = Some (deliver (JArr (rev xs)) st)"
| "parseStep st MFirst t = startValue st t"
| "parseStep (FObj kvs k # st) MKeyFirst TRBrace = Some (deliver (JObj kvs) st)"
| "parseStep st MKeyFirst t = startKey st t"
| "parseStep st MKey t = startKey st t"
| "parseStep (FObj kvs k' # st) (MColon k) TColon = Some (FObj kvs k # st, MValue)"
| "parseStep (FArr xs # st) MAfter TComma = Some (FArr xs # st, MValue)"
| "parseStep (FObj kvs k # st) MAfter TComma = Some (FObj kvs k # st, MKey)"
| "parseStep (FArr xs # st) MAfter TRBrack = Some (deliver (JArr (rev xs)) st)"
| "parseStep (FObj kvs k # st) MAfter TRBrace = Some (deliver (JObj kvs) st)"
| "parseStep st m t = None"

fun parseTokens :: "frame list \<times> mode \<Rightarrow> token list \<Rightarrow> json option" where
  "parseTokens (st, MDone v) [] = Some v"
| "parseTokens (st, m) [] = None"
| "parseTokens (st, m) (t # ts) =
     (case parseStep st m t of None \<Rightarrow> None | Some s' \<Rightarrow> parseTokens s' ts)"

definition JSON_parse :: "string \<Rightarrow> json option" where
  "JSON_parse text =
     (case lexJson LIdle text of
        None \<Rightarrow> None
      | Some ts \<Rightarrow> parseTokens ([], MValue) ts)"

section \<open>Extracting the array from the reply (\<open>processExcel\<close>)\<close>

datatype error =
    EmptyReply
  | NoJsonArrayFound
  | InvalidJson string
  | MalformedReply
  | BackendError json
  | FsError string

fun message :: "error \<Rightarrow> string" where
  \<comment> \<open>The fixed part of the text of the \<open>Error\<close>; what the platform appends to it
      (the parser's message, the backend's \<open>error\<close> field) is left out.\<close>
  "message EmptyReply = ''AI model returned empty response''"
| "message NoJsonArrayFound = ''AI response does not contain a valid JSON array''"
| "message (InvalidJson t) = ''AI response is not valid JSON: ''"
| "message MalformedReply = ''Failed to parse Ollama response''"
| "message (BackendError e) = ''Ollama error: ''"
| "message (FsError m) = m"

definition bracketPair :: "string \<Rightarrow> bool" where
  \<comment> \<open>The test of the \<open>if\<close> that guards the slice.\<close>
  "bracketPair t \<longleftrightarrow>
     indexOf t (CHR ''['') \<noteq> - 1 \<and> lastIndexOf t (CHR '']'') \<noteq> - 1 \<and>
     lastIndexOf t (CHR '']'') > indexOf t (CHR ''['')"

definition parseAiResponse :: "(string \<Rightarrow> json option) \<Rightarrow> string \<Rightarrow> error + json" where
  \<comment> \<open>\<open>processExcel\<close>, from \<open>let modelText = modelResult.trim()\<close> to the end of the
      \<open>try\<close> around \<open>JSON.parse\<close>. \<open>InvalidJson\<close> carries the text that was handed to
      the parser (the one the source logs).\<close>
  "parseAiResponse parse modelResult =
     (let modelText = trim modelResult
      in if modelText = [] then Inl EmptyReply
         else
           (let firstBracket = indexOf modelText (CHR ''['');
                lastBracket = lastIndexOf modelText (CHR '']'')
            in if firstBracket \<noteq> - 1 \<and> lastBracket \<noteq> - 1 \<and> lastBracket > firstBracket
               then
                 (let modelText' = substring modelText firstBracket (lastBracket + 1)
                  in case parse modelText' of
                       None \<Rightarrow> Inl (InvalidJson modelText')
                     | Some parsed \<Rightarrow> Inr parsed)
               else Inl NoJsonArrayFound))"

section \<open>Reading the backend's reply (\<open>callOllama\<close>)\<close>

text \<open>
  The three copies of the server differ in the handler \<open>res.on('end', ...)\<close>. Each is a
  function of the response body; \<open>Inl\<close> is \<open>reject\<close>, \<open>Inr\<close> is \<open>resolve\<close>. Reading a
  property of \<open>null\<close> throws inside the \<open>try\<close>, so a body that parses to \<open>null\<close> ends in
  the \<open>catch\<close> branch.
\<close>

fun coalesce :: "json option \<Rightarrow> json \<Rightarrow> json" where
  \<comment> \<open>\<open>a ?? b\<close>: \<open>b\<close> when \<open>a\<close> is \<open>undefined\<close> or \<open>null\<close>.\<close>
  "coalesce None d = d"
| "coalesce (Some JNull) d = d"
| "coalesce (Some v) d = v"

fun blankString :: "json \<Rightarrow> bool" where
  \<comment> \<open>\<open>typeof reply === 'string' && reply.trim().length === 0\<close>\<close>
  "blankString (JStr s) = (length (trim s) = 0)"
| "blankString _ = False"

definition replyOf :: "json \<Rightarrow> string \<Rightarrow> error + json" where
  \<comment> \<open>\<open>src/unnamed/part_000\<close>, lines 82 to 86.\<close>
  "replyOf jsonResponse responseData =
     (if jsonResponse = JNull then Inl MalformedReply
      else
        (let reply =
               coalesce (getProp jsonResponse ''response'')
                 (coalesce (getProp jsonResponse ''output'')
                    (coalesce (getProp jsonResponse ''result'') (JStr responseData)))
         in if \<not> truthy reply \<or> blankString reply then Inl EmptyReply
            else Inr reply))"

definition callOllama_part000 :: "(string \<Rightarrow> json option) \<Rightarrow> string \<Rightarrow> error + json" where
  \<comment> \<open>\<open>src/unnamed/part_000\<close>, lines 65 to 93.\<close>
  "callOllama_part000 parse responseData =
     (case parse responseData of
        None \<Rightarrow> Inl MalformedReply
      | Some jsonResponse \<Rightarrow>
          (case getProp jsonResponse ''error'' of
             None \<Rightarrow> replyOf jsonResponse responseData
           | Some e \<Rightarrow>
               if truthy jsonResponse \<and> truthy e then Inl (BackendError e)
               else replyOf jsonResponse responseData))"

definition callOllama_server :: "(string \<Rightarrow> json option) \<Rightarrow> string \<Rightarrow> error + json" where
  \<comment> \<open>\<open>src/server.js\<close>, lines 260 to 268.\<close>
  "callOllama_server parse responseData =
     (case parse responseData of
        None \<Rightarrow> Inl MalformedReply
      | Some jsonResponse \<Rightarrow>
          if jsonResponse = JNull then Inl MalformedReply
          else Inr (coalesce (getProp jsonResponse ''response'') jsonResponse))"

definition callOllama_server_first ::
  "(string \<Rightarrow> json option) \<Rightarrow> string \<Rightarrow> error + json option" where
  \<comment> \<open>\<open>src/server.js\<close>, lines 58 to 65; the resolved value may be \<open>undefined\<close>
      (\<open>None\<close>).\<close>
  "callOllama_server_first parse responseData =
     (case parse responseData of
        None \<Rightarrow> Inl MalformedReply
      | Some jsonResponse \<Rightarrow>
          if jsonResponse = JNull then Inl MalformedReply
          else Inr (getProp jsonResponse ''response''))"

section \<open>Merging the AI records with the rows (\<open>processExcel\<close>)\<close>

text \<open>
  The text handed to \<open>JSON.parse\<close> starts with \<open>[\<close>, so the parsed value is an array;
  the merge takes its elements. A row is a JavaScript object.
\<close>

fun isObject :: "json \<Rightarrow> bool" where
  "isObject (JObj kvs) = True"
| "isObject _ = False"

fun orElse :: "json option \<Rightarrow> json option \<Rightarrow> json option" where
  \<comment> \<open>\<open>a || b\<close>\<close>
  "orElse None b = b"
| "orElse (Some x) b = (if truthy x then Some x else b)"

fun orEmpty :: "json option \<Rightarrow> json" where
  \<comment> \<open>\<open>a || ''\<close>\<close>
  "orEmpty None = JStr []"
| "orEmpty (Some x) = (if truthy x then x else JStr [])"

definition aiRecord :: "json list \<Rightarrow> nat \<Rightarrow> json" where
  \<comment> \<open>\<open>parsed[i] || {}\<close>\<close>
  "aiRecord parsed i =
     (if i < length parsed \<and> truthy (parsed ! i) then parsed ! i else JObj [])"

definition mergeRow :: "(string \<times> json) list \<Rightarrow> json \<Rightarrow> (string \<times> json) list" where
  \<comment> \<open>The object literal of the \<open>map\<close> callback: the spread of \<open>r\<close> keeps the
      properties of the row in their order, then the three keys are assigned.\<close>
  "mergeRow r ai =
     setProp
       (setProp
          (setProp r ''Module'' (orEmpty (getProp ai ''Module'')))
          ''Summarized Problem''
          (orEmpty (orElse (getProp ai ''Summarized Problem'') (getProp ai ''SummarizedProblem''))))
       ''Severity'' (orEmpty (getProp ai ''Severity''))"

definition mergeOverlay ::
  "(string \<times> json) list list \<Rightarrow> json list \<Rightarrow> (string \<times> json) list list" where
  \<comment> \<open>\<open>src/unnamed/part_000\<close>, lines 290 to 298: \<open>rows.map((r, i) => ...)\<close>.\<close>
  "mergeOverlay rows parsed =
     map (\<lambda>i. mergeRow (rows ! i) (aiRecord parsed i)) [0..<length rows]"

definition mergeReplace :: "(string \<times> json) list list \<Rightarrow> json \<Rightarrow> json" where
  \<comment> \<open>\<open>src/server.js\<close>, line 512: \<open>const merged = parsed;\<close>\<close>
  "mergeReplace rows parsed = parsed"

definition processExcel_merged ::
  "(string \<Rightarrow> json option) \<Rightarrow> (string \<times> json) list list \<Rightarrow> string \<Rightarrow> error + json" where
  \<comment> \<open>\<open>src/server.js\<close>, lines 491 to 512: the value handed to \<open>json_to_sheet\<close>.\<close>
  "processExcel_merged parse rows modelResult =
     (case parseAiResponse parse modelResult of
        Inl e \<Rightarrow> Inl e
      | Inr parsed \<Rightarrow> Inr (mergeReplace rows parsed))"

section \<open>Naming the output file (\<open>processExcel\<close>)\<close>


definition digitChar :: "nat \<Rightarrow> char" where
  \<comment> \<open>The character of a decimal digit; only applied to numbers below 10.\<close>
  "digitChar d = ''0123456789'' ! d"

fun showNat :: "nat \<Rightarrow> string" where
  \<comment> \<open>The decimal text JavaScript gives a non-negative integer.\<close>
  "showNat n = (if n < 10 then [digitChar n] else showNat (n div 10) @ [digitChar (n mod 10)])"






definition processedFilename_part000 :: "nat \<Rightarrow> string \<Rightarrow> string" where
  \<comment> \<open>\<open>src/unnamed/part_000\<close>, line 307; the first argument is \<open>Date.now()\<close>.\<close>
  "processedFilename_part000 nowMs originalName =
     ''processed-'' @ showNat nowMs @ ''-'' @ originalName"

text \<open>
  \<open>path.join\<close> belongs to the platform. The functions below follow the algorithm of
  its POSIX flavour: the non-empty arguments are joined with \<open>/\<close> and the result is
  normalised (empty and \<open>.\<close> segments are dropped, a \<open>..\<close> segment removes the segment
  before it, a trailing \<open>/\<close> is kept).
\<close>

fun splitSlash :: "string \<Rightarrow> string \<Rightarrow> string list" where
  \<comment> \<open>The segments between the separators; the first argument is the segment being
      read, reversed.\<close>
  "splitSlash acc [] = [rev acc]"
| "splitSlash acc (c # cs) =
     (if c = CHR ''/'' then rev acc # splitSlash [] cs else splitSlash (c # acc) cs)"

fun normalizeStep :: "bool \<Rightarrow> string list \<Rightarrow> string \<Rightarrow> string list" where
  \<comment> \<open>One segment against the segments kept so far (the last one first).\<close>
  "normalizeStep allowAboveRoot res seg =
     (if seg = [] \<or> seg = ''.'' then res
      else if seg = ''..'' then
        (case res of
           [] \<Rightarrow> if allowAboveRoot then [''..''] else []
         | lastSeg # rest \<Rightarrow>
             if lastSeg = ''..'' then (if allowAboveRoot then ''..'' # res else res)
             else rest)
      else seg # res)"

fun joinSlash :: "string list \<Rightarrow> string" where
  "joinSlash [] = []"
| "joinSlash [s] = s"
| "joinSlash (s # t # ss) = s @ CHR ''/'' # joinSlash (t # ss)"

definition normalizeString :: "string \<Rightarrow> bool \<Rightarrow> string" where
  "normalizeString path allowAboveRoot =
     joinSlash (rev (foldl (normalizeStep allowAboveRoot) [] (splitSlash [] path)))"

definition path_normalize :: "string \<Rightarrow> string" where
  "path_normalize path =
     (if path = [] then ''.''
      else
        (let isAbsolute = (hd path = CHR ''/'');
             trailingSeparator = (last path = CHR ''/'');
             p = normalizeString path (\<not> isAbsolute)
         in if p = [] then (if isAbsolute then ''/'' else if trailingSeparator then ''./'' else ''.'')
            else (if isAbsolute then ''/'' else []) @ p @
                 (if trailingSeparator then ''/'' else [])))"

definition path_join :: "string \<Rightarrow> string \<Rightarrow> string" where
  "path_join a b =
     (if a = [] \<and> b = [] then ''.''
      else path_normalize (if a = [] then b else if b = [] then a else a @ CHR ''/'' # b))"

definition processedPath :: "string \<Rightarrow> string" where
  \<comment> \<open>\<open>src/server.js\<close>, line 529: \<open>path.join('downloads', processedFilename)\<close>\<close>
  "processedPath name = path_join ''downloads'' name"

definition downloadUrl :: "string \<Rightarrow> string" where
  \<comment> \<open>\<open>src/server.js\<close>, line 536.\<close>
  "downloadUrl name = ''/downloads/'' @ name"




section \<open>Writing the result and cleaning up (\<open>processExcel\<close>)\<close>

text \<open>
  The file system is a state: the contents of each existing path, and the paths on
  which the platform refuses a write or a removal.
\<close>

record fsys =
  files :: "string \<rightharpoonup> string"
  writeDenied :: "string set"
  unlinkDenied :: "string set"

definition writeFileSync :: "fsys \<Rightarrow> string \<Rightarrow> string \<Rightarrow> error + fsys" where
  "writeFileSync fs p buf =
     (if p \<in> writeDenied fs then Inl (FsError ''EACCES: permission denied'')
      else Inr (fs\<lparr>files := (files fs)(p \<mapsto> buf)\<rparr>))"

definition unlinkSync :: "fsys \<Rightarrow> string \<Rightarrow> error + fsys" where
  "unlinkSync fs p =
     (if files fs p = None then Inl (FsError ''ENOENT: no such file or directory'')
      else if p \<in> unlinkDenied fs then Inl (FsError ''EPERM: operation not permitted'')
      else Inr (fs\<lparr>files := (files fs)(p := None)\<rparr>))"

datatype response =
    Success string string
  | Failure nat string

definition errorBody :: "error \<Rightarrow> string" where
  \<comment> \<open>\<open>error.message || 'Processing failed'\<close>\<close>
  "errorBody e = (if message e = [] then ''Processing failed'' else message e)"

definition storeAndRespond ::
  "fsys \<Rightarrow> string \<Rightarrow> string \<Rightarrow> string \<Rightarrow> fsys \<times> error list \<times> response" where
  \<comment> \<open>\<open>src/server.js\<close>, lines 529 to 545 (\<open>src/unnamed/part_000\<close>, lines 308 to 324):
      the new file system, what \<open>console.error\<close> logged, and the response sent.\<close>
  "storeAndRespond fs uploadedPath name buf =
     (case writeFileSync fs (processedPath name) buf of
        Inl e \<Rightarrow> (fs, [e], Failure 500 (errorBody e))
      | Inr fs1 \<Rightarrow>
          (case unlinkSync fs1 uploadedPath of
             Inl e \<Rightarrow> (fs1, [e], Failure 500 (errorBody e))
           | Inr fs2 \<Rightarrow> (fs2, [], Success (downloadUrl name) name)))"

section \<open>The spreadsheet codec\<close>

text \<open>
  Modelled from the spec: the \<open>xlsx\<close> package that \<open>processExcel\<close> calls is not part of
  the sources. A sheet is its header row and its data rows; a cell is \<open>None\<close> when it is
  blank, and a data row may stop before the last column.
\<close>

record sheet =
  header :: "string list"
  body :: "json option list list"

text \<open>
  Modelled from the spec: the \<open>xlsx\<close> package is not part of the sources. A blank cell
  decodes to the empty string.
\<close>

definition cellAt :: "json option list \<Rightarrow> nat \<Rightarrow> json" where
  "cellAt cells j =
     (if j < length cells then (case cells ! j of None \<Rightarrow> JStr [] | Some v \<Rightarrow> v)
      else JStr [])"

text \<open>
  Modelled from the spec: the \<open>xlsx\<close> package is not part of the sources. The header row
  defines the column names of every row.
\<close>

definition decodeRow :: "string list \<Rightarrow> json option list \<Rightarrow> (string \<times> json) list" where
  "decodeRow hdr cells =
     foldl (\<lambda>row j. setProp row (hdr ! j) (cellAt cells j)) [] [0..<length hdr]"

text \<open>
  Modelled from the spec: the \<open>xlsx\<close> package is not part of the sources (\<open>xlsx.readFile\<close>
  and \<open>sheet_to_json\<close> with \<open>defval: ''\<close>). Only the first sheet of the workbook is read.
\<close>

definition decode :: "sheet list \<Rightarrow> (string \<times> json) list list" where
  "decode workbook =
     (case workbook of [] \<Rightarrow> [] | sh # _ \<Rightarrow> map (decodeRow (header sh)) (body sh))"

text \<open>
  Modelled from the spec: the \<open>xlsx\<close> package is not part of the sources. The keys of a row
  that are not yet columns are appended, in their order.
\<close>

definition addKeys :: "string list \<Rightarrow> (string \<times> json) list \<Rightarrow> string list" where
  "addKeys hs row = foldl (\<lambda>acc k. if k \<in> set acc then acc else acc @ [k]) hs (map fst row)"

text \<open>
  Modelled from the spec: the \<open>xlsx\<close> package is not part of the sources (\<open>json_to_sheet\<close>).
  The columns are the union of the keys of the rows in first-seen order; there is one data
  row for each row.
\<close>

definition encodeSheet :: "(string \<times> json) list list \<Rightarrow> sheet" where
  "encodeSheet rows =
     (let hdr = foldl addKeys [] rows
      in \<lparr>header = hdr, body = map (\<lambda>row. map (map_of row) hdr) rows\<rparr>)"

text \<open>
  Modelled from the spec: the \<open>xlsx\<close> package is not part of the sources (\<open>book_new\<close>,
  \<open>book_append_sheet\<close>, \<open>write\<close>). The workbook written has one sheet.
\<close>

definition encode :: "(string \<times> json) list list \<Rightarrow> sheet list" where
  "encode rows = [encodeSheet rows]"

section \<open>Facts about the string primitives\<close>

lemma indexOf_ge: "- 1 \<le> indexOf s c"
  by (induction s) (auto simp: Let_def)

lemma indexOf_minus1: "indexOf s c = - 1 \<longleftrightarrow> c \<notin> set s"
proof (induction s)
  case Nil
  show ?case by simp
next
  case (Cons x xs)
  show ?case using Cons indexOf_ge[of xs c] by (auto simp: Let_def)
qed

lemma lastIndexOf_ge: "- 1 \<le> lastIndexOf s c"
  by (induction s) (auto simp: Let_def)

lemma lastIndexOf_minus1: "lastIndexOf s c = - 1 \<longleftrightarrow> c \<notin> set s"
proof (induction s)
  case Nil
  show ?case by simp
next
  case (Cons x xs)
  show ?case using Cons lastIndexOf_ge[of xs c] by (auto simp: Let_def)
qed

lemma indexOf_prefix:
  "c \<notin> set w \<Longrightarrow> indexOf (w @ s) c = (if indexOf s c = - 1 then - 1 else int (length w) + indexOf s c)"
  using indexOf_ge[of s c] by (induction w) (auto simp: Let_def)

lemma indexOf_suffix: "c \<notin> set w \<Longrightarrow> indexOf (s @ w) c = indexOf s c"
  by (induction s) (auto simp: Let_def indexOf_minus1)

lemma lastIndexOf_prefix:
  "c \<notin> set w \<Longrightarrow> lastIndexOf (w @ s) c = (if lastIndexOf s c = - 1 then - 1 else int (length w) + lastIndexOf s c)"
  using lastIndexOf_ge[of s c] by (induction w) (auto simp: Let_def)

lemma lastIndexOf_suffix: "c \<notin> set w \<Longrightarrow> lastIndexOf (s @ w) c = lastIndexOf s c"
  by (induction s) (auto simp: Let_def lastIndexOf_minus1)

lemma indexOf_first: "c \<notin> set xs \<Longrightarrow> indexOf (xs @ c # ys) c = int (length xs)"
  by (induction xs) (auto simp: Let_def)

lemma lastIndexOf_last: "c \<notin> set ys \<Longrightarrow> lastIndexOf (xs @ c # ys) c = int (length xs)"
  by (induction xs) (auto simp: Let_def lastIndexOf_minus1)

lemma trim_decomp:
  "\<exists>w1 w2. s = w1 @ trim s @ w2 \<and> (\<forall>c\<in>set w1. isWhiteSpace c) \<and> (\<forall>c\<in>set w2. isWhiteSpace c)"
proof -
  let ?rest = "dropWhile isWhiteSpace s"
  let ?w1 = "takeWhile isWhiteSpace s"
  let ?w2 = "rev (takeWhile isWhiteSpace (rev ?rest))"
  have "rev ?rest = takeWhile isWhiteSpace (rev ?rest) @ dropWhile isWhiteSpace (rev ?rest)"
    by simp
  then have rest: "?rest = trim s @ ?w2"
    unfolding trim_def by (metis rev_append rev_rev_ident)
  have "s = ?w1 @ ?rest" by simp
  with rest have "s = ?w1 @ trim s @ ?w2" by simp
  moreover have "\<forall>c\<in>set ?w1. isWhiteSpace c" by (auto dest: set_takeWhileD)
  moreover have "\<forall>c\<in>set ?w2. isWhiteSpace c" by (auto dest: set_takeWhileD)
  ultimately show ?thesis by blast
qed

lemma bracket_not_ws: "\<not> isWhiteSpace (CHR ''['')" "\<not> isWhiteSpace (CHR '']'')"
  by (simp_all add: isWhiteSpace_def)
lemma bracketPair_trim: "bracketPair (trim s) \<longleftrightarrow> bracketPair s"
proof -
  obtain w1 w2 where s: "s = w1 @ trim s @ w2"
    and w1: "\<forall>c\<in>set w1. isWhiteSpace c" and w2: "\<forall>c\<in>set w2. isWhiteSpace c"
    using trim_decomp by blast
  have n1: "CHR ''['' \<notin> set w1" "CHR '']'' \<notin> set w1" using w1 bracket_not_ws by blast+
  have n2: "CHR ''['' \<notin> set w2" "CHR '']'' \<notin> set w2" using w2 bracket_not_ws by blast+
  have i: "indexOf (w1 @ trim s @ w2) (CHR ''['') =
      (if indexOf (trim s) (CHR ''['') = - 1 then - 1 else int (length w1) + indexOf (trim s) (CHR ''[''))"
    using n1 n2 by (simp add: indexOf_prefix indexOf_suffix)
  have l: "lastIndexOf (w1 @ trim s @ w2) (CHR '']'') =
      (if lastIndexOf (trim s) (CHR '']'') = - 1 then - 1 else int (length w1) + lastIndexOf (trim s) (CHR '']''))"
    using n1 n2 by (simp add: lastIndexOf_prefix lastIndexOf_suffix)
  have "bracketPair (w1 @ trim s @ w2) \<longleftrightarrow> bracketPair (trim s)"
    unfolding bracketPair_def i l using indexOf_ge[of "trim s" "CHR ''[''"] lastIndexOf_ge[of "trim s" "CHR '']''"]
    by auto
  with s show ?thesis by simp
qed

lemma parseAiResponse_no_array:
  assumes "\<not> bracketPair raw"
  shows "parseAiResponse parse raw = (if trim raw = [] then Inl EmptyReply else Inl NoJsonArrayFound)"
proof -
  from assms have "\<not> bracketPair (trim raw)" by (simp add: bracketPair_trim)
  then show ?thesis
    by (auto simp: parseAiResponse_def bracketPair_def Let_def)
qed

lemma trim_around:
  assumes "\<not> isWhiteSpace a" "\<not> isWhiteSpace b"
  shows "trim (pre @ a # mid @ b # post) =
         dropWhile isWhiteSpace pre @ a # mid @ b # rev (dropWhile isWhiteSpace (rev post))"
proof -
  have "dropWhile isWhiteSpace (pre @ a # mid @ b # post) = dropWhile isWhiteSpace pre @ a # mid @ b # post"
    using assms(1) by (simp add: dropWhile_append3)
  moreover have "rev (dropWhile isWhiteSpace pre @ a # mid @ b # post)
      = rev post @ b # rev (dropWhile isWhiteSpace pre @ a # mid)" by simp
  moreover have "dropWhile isWhiteSpace (rev post @ b # rev (dropWhile isWhiteSpace pre @ a # mid))
      = dropWhile isWhiteSpace (rev post) @ b # rev (dropWhile isWhiteSpace pre @ a # mid)"
    using assms(2) by (simp add: dropWhile_append3)
  ultimately show ?thesis by (simp add: trim_def)
qed

lemma substring_middle:
  "substring (xs @ ys @ zs) (int (length xs)) (int (length xs) + int (length ys)) = ys"
  by (simp add: substring_def Let_def min_def max_def)

lemma parseAiResponse_clean:
  assumes pre: "CHR ''['' \<notin> set pre" and post: "CHR '']'' \<notin> set post"
  shows "parseAiResponse parse (pre @ CHR ''['' # mid @ CHR '']'' # post) =
     (case parse (CHR ''['' # mid @ [CHR '']'']) of
        None \<Rightarrow> Inl (InvalidJson (CHR ''['' # mid @ [CHR '']'']))
      | Some v \<Rightarrow> Inr v)"
proof -
  let ?pre = "dropWhile isWhiteSpace pre"
  let ?post = "rev (dropWhile isWhiteSpace (rev post))"
  let ?arr = "CHR ''['' # mid @ [CHR '']'']"
  let ?t = "?pre @ ?arr @ ?post"
  have t: "trim (pre @ CHR ''['' # mid @ CHR '']'' # post) = ?t"
    using trim_around[OF bracket_not_ws] by simp
  have pre': "CHR ''['' \<notin> set ?pre" using pre by (auto dest: set_dropWhileD)
  have post': "CHR '']'' \<notin> set ?post" using post by (auto dest: set_dropWhileD)
  have f: "indexOf ?t (CHR ''['') = int (length ?pre)"
    using indexOf_first[OF pre', of "mid @ CHR '']'' # ?post"] by simp
  have l: "lastIndexOf ?t (CHR '']'') = int (length ?pre) + int (length mid) + 1"
    using lastIndexOf_last[OF post', of "?pre @ CHR ''['' # mid"] by simp
  have s: "substring ?t (int (length ?pre)) (int (length ?pre) + int (length mid) + 1 + 1) = ?arr"
    using substring_middle[of ?pre ?arr ?post] by (simp add: algebra_simps)
  have ne: "?t \<noteq> []" by simp
  show ?thesis
    unfolding parseAiResponse_def t Let_def f l s using ne by (simp split: option.splits)
qed

section \<open>Extraction of the array\<close>

text \<open>
  C1, as amended. When the prose before the array has no \<open>[\<close> and the prose after it has
  no \<open>]\<close>, the text handed to the parser is exactly the array text (from its \<open>[\<close> to its
  \<open>]\<close>), so for a well-formed array the extraction returns its parsed value. This holds
  for every parser.
\<close>

theorem extraction_yields_array:
  assumes "CHR ''['' \<notin> set pre"
    and "CHR '']'' \<notin> set post"
    and "parse (CHR ''['' # mid @ '']'') = Some v"
  shows "parseAiResponse parse (pre @ (CHR ''['' # mid @ '']'') @ post) = Inr v"
  using parseAiResponse_clean[OF assms(1) assms(2), of parse mid] assms(3) by simp

text \<open>The example reply of the specification: one record, prose on both sides.\<close>

theorem extraction_yields_array_witness:
  \<open>parseAiResponse JSON_parse
     ((''Sure, here is the result:'' @ [CHR 0x0A]) @
      (CHR ''['' # ''{"Module":"Battery","Summarized Problem":"Battery drains rapidly, losing about 20% per hour.","Severity":"High"}'' @ '']'') @
      ([CHR 0x0A] @ ''Let me know if you need more.''))
   = Inr (JArr [JObj [(''Module'', JStr ''Battery''),
        (''Summarized Problem'', JStr ''Battery drains rapidly, losing about 20% per hour.''),
        (''Severity'', JStr ''High'')]])\<close>
proof -
  have pre: "CHR ''['' \<notin> set (''Sure, here is the result:'' @ [CHR 0x0A])"
    by simp
  have post: "CHR '']'' \<notin> set ([CHR 0x0A] @ ''Let me know if you need more.'')"
    by simp
  have arr: \<open>JSON_parse (CHR ''['' # ''{"Module":"Battery","Summarized Problem":"Battery drains rapidly, losing about 20% per hour.","Severity":"High"}'' @ '']'')
      = Some (JArr [JObj [(''Module'', JStr ''Battery''),
           (''Summarized Problem'', JStr ''Battery drains rapidly, losing about 20% per hour.''),
           (''Severity'', JStr ''High'')]])\<close>
    by (simp add: JSON_parse_def isJsonWs_def)
  show ?thesis
    by (rule extraction_yields_array
        [where pre = "''Sure, here is the result:'' @ [CHR 0x0A]"
           and post = "[CHR 0x0A] @ ''Let me know if you need more.''"
           and parse = JSON_parse, OF pre post arr])
qed

text \<open>
  C1 as stated fails: a \<open>]\<close> in the prose after a well-formed array (or a \<open>[\<close> in the
  prose before it) moves the slice, and the parser is handed a text that is not JSON.
\<close>

theorem extraction_yields_array_counterexample:
  "JSON_parse ''[1,2]'' = Some (JArr [JNum 1, JNum 2])
   \<and> parseAiResponse JSON_parse (''Rows: '' @ ''[1,2]'' @ '' (see [the sheet])'')
       = Inl (InvalidJson ''[1,2] (see [the sheet]'')"
  by (simp add: parseAiResponse_def trim_def isWhiteSpace_def substring_def JSON_parse_def
      isJsonWs_def scalarToken_def naturalLit_def digitVal_def)

text \<open>
  C2, as amended. A reply with no \<open>[\<close>, or no \<open>]\<close>, or whose last \<open>]\<close> is before its first
  \<open>[\<close>, never reaches the parser: the extraction fails with \<open>NoJsonArrayFound\<close> when the
  trimmed reply is not empty, and with \<open>EmptyReply\<close> when the reply is empty or only
  white space.
\<close>

theorem no_array_fails_before_parsing:
  assumes "indexOf raw (CHR ''['') = - 1 \<or> lastIndexOf raw (CHR '']'') = - 1 \<or>
           lastIndexOf raw (CHR '']'') < indexOf raw (CHR ''['')"
  shows "parseAiResponse parse raw =
           (if trim raw = [] then Inl EmptyReply else Inl NoJsonArrayFound)"
proof -
  from assms have "\<not> bracketPair raw" by (auto simp: bracketPair_def)
  then show ?thesis by (rule parseAiResponse_no_array)
qed

theorem no_array_fails_before_parsing_witness:
  "lastIndexOf ''done ] and [ more'' (CHR '']'') < indexOf ''done ] and [ more'' (CHR ''['')
   \<and> parseAiResponse JSON_parse ''done ] and [ more'' = Inl NoJsonArrayFound"
proof -
  have h: "lastIndexOf ''done ] and [ more'' (CHR '']'') < indexOf ''done ] and [ more'' (CHR ''['')"
    by simp
  have t: "trim ''done ] and [ more'' \<noteq> []"
    by (simp add: trim_def isWhiteSpace_def)
  from no_array_fails_before_parsing[of "''done ] and [ more''" JSON_parse] h t
  show ?thesis by simp
qed

text \<open>
  C2 as stated fails on a reply of white space only: it has no \<open>[\<close>, and the failure is
  the one of the empty reply, not the one of the missing array.
\<close>

theorem no_array_fails_before_parsing_counterexample:
  "indexOf ''   '' (CHR ''['') = - 1
   \<and> parseAiResponse JSON_parse ''   '' = Inl EmptyReply
   \<and> message EmptyReply \<noteq> message NoJsonArrayFound"
  by (simp add: parseAiResponse_def trim_def isWhiteSpace_def)

section \<open>Facts about objects and the overlay merge\<close>

lemma map_of_setProp: "map_of (setProp kvs k v) = (map_of kvs)(k \<mapsto> v)"
  by (induction kvs) (auto simp: fun_eq_iff)

lemma keys_setProp: "fst ` set (setProp kvs k v) = insert k (fst ` set kvs)"
  by (simp add: dom_map_of_conv_image_fst[symmetric] map_of_setProp)

lemma length_mergeOverlay: "length (mergeOverlay rows parsed) = length rows"
  by (simp add: mergeOverlay_def)

lemma nth_mergeOverlay:
  "i < length rows \<Longrightarrow> mergeOverlay rows parsed ! i = mergeRow (rows ! i) (aiRecord parsed i)"
  by (simp add: mergeOverlay_def)

lemma keys_mergeRow:
  "fst ` set (mergeRow r ai) = fst ` set r \<union> {''Module'', ''Summarized Problem'', ''Severity''}"
  by (auto simp: mergeRow_def keys_setProp)

lemma map_of_mergeRow_other:
  "k \<noteq> ''Module'' \<Longrightarrow> k \<noteq> ''Summarized Problem'' \<Longrightarrow> k \<noteq> ''Severity'' \<Longrightarrow>
   map_of (mergeRow r ai) k = map_of r k"
  by (simp add: mergeRow_def map_of_setProp)

lemma map_of_mergeRow_Module:
  "map_of (mergeRow r ai) ''Module'' = Some (orEmpty (getProp ai ''Module''))"
  by (simp add: mergeRow_def map_of_setProp)

lemma map_of_mergeRow_Summarized:
  "map_of (mergeRow r ai) ''Summarized Problem'' =
     Some (orEmpty (orElse (getProp ai ''Summarized Problem'') (getProp ai ''SummarizedProblem'')))"
  by (simp add: mergeRow_def map_of_setProp)

lemma map_of_mergeRow_Severity:
  "map_of (mergeRow r ai) ''Severity'' = Some (orEmpty (getProp ai ''Severity''))"
  by (simp add: mergeRow_def map_of_setProp)

lemma aiRecord_absent: "length parsed \<le> i \<Longrightarrow> aiRecord parsed i = JObj []"
  by (simp add: aiRecord_def)

lemma getProp_aiRecord_nonobject:
  "i < length parsed \<Longrightarrow> \<not> isObject (parsed ! i) \<Longrightarrow> getProp (aiRecord parsed i) k = None"
  by (cases "parsed ! i") (auto simp: aiRecord_def)

lemma aiRecord_take: "i < n \<Longrightarrow> aiRecord (take n parsed) i = aiRecord parsed i"
  by (simp add: aiRecord_def)

lemma mergeOverlay_take: "mergeOverlay rows (take (length rows) parsed) = mergeOverlay rows parsed"
  by (simp add: mergeOverlay_def aiRecord_take)


lemma orEmpty_truthy: "x = Some v \<Longrightarrow> truthy v \<Longrightarrow> orEmpty x = v"
  by simp

lemma orEmpty_falsy: "\<forall>v. x = Some v \<longrightarrow> \<not> truthy v \<Longrightarrow> orEmpty x = JStr []"
  by (cases x) simp_all

lemma orElse_truthy: "x = Some v \<Longrightarrow> truthy v \<Longrightarrow> orElse x y = Some v"
  by simp

lemma orElse_falsy: "\<forall>v. x = Some v \<longrightarrow> \<not> truthy v \<Longrightarrow> orElse x y = y"
  by (cases x) simp_all

lemma aiRecord_object:
  "i < length parsed \<Longrightarrow> parsed ! i = JObj kvs \<Longrightarrow> aiRecord parsed i = JObj kvs"
  by (simp add: aiRecord_def)

lemma getProp_aiRecord_none:
  "length parsed \<le> i \<or> (\<forall>kvs. parsed ! i \<noteq> JObj kvs) \<Longrightarrow> getProp (aiRecord parsed i) k = None"
  by (cases "i < length parsed"; cases "parsed ! i") (auto simp: aiRecord_def)

section \<open>The overlay merge\<close>

text \<open>
  C3, as amended. For every index \<open>i\<close> of the original rows, row \<open>i\<close> of the result keeps
  every key of original row \<open>i\<close>, and the original value of every key other than
  \<open>Module\<close>, \<open>Summarized Problem\<close> and \<open>Severity\<close>. These three keys are always assigned.
  When the AI element at \<open>i\<close> is an object: \<open>Module\<close> and \<open>Severity\<close> get the value the
  object has for the key when that value is truthy, and the empty string when the key is
  missing or its value is falsy; \<open>Summarized Problem\<close> gets the object's truthy value
  for that key, failing that its truthy value for \<open>SummarizedProblem\<close>, failing that the
  empty string. When there is no AI element at \<open>i\<close>, or it is not an object, the three keys
  are the empty string. No other key is assigned: \<open>Severity Reason\<close> is not taken from
  the AI record.
\<close>

theorem overlay_row:
  assumes "i < length rows"
  shows "fst ` set (rows ! i) \<subseteq> fst ` set (mergeOverlay rows parsed ! i)
    \<and> (\<forall>k. k \<notin> {''Module'', ''Summarized Problem'', ''Severity''} \<longrightarrow>
           map_of (mergeOverlay rows parsed ! i) k = map_of (rows ! i) k)
    \<and> (i < length parsed \<and> parsed ! i = JObj kvs \<longrightarrow>
         (map_of kvs ''Module'' = Some m \<and> truthy m \<longrightarrow>
            map_of (mergeOverlay rows parsed ! i) ''Module'' = Some m)
       \<and> ((\<forall>v. map_of kvs ''Module'' = Some v \<longrightarrow> \<not> truthy v) \<longrightarrow>
            map_of (mergeOverlay rows parsed ! i) ''Module'' = Some (JStr []))
       \<and> (map_of kvs ''Summarized Problem'' = Some p \<and> truthy p \<longrightarrow>
            map_of (mergeOverlay rows parsed ! i) ''Summarized Problem'' = Some p)
       \<and> ((\<forall>v. map_of kvs ''Summarized Problem'' = Some v \<longrightarrow> \<not> truthy v) \<and>
            map_of kvs ''SummarizedProblem'' = Some a \<and> truthy a \<longrightarrow>
            map_of (mergeOverlay rows parsed ! i) ''Summarized Problem'' = Some a)
       \<and> ((\<forall>v. map_of kvs ''Summarized Problem'' = Some v \<longrightarrow> \<not> truthy v) \<and>
            (\<forall>v. map_of kvs ''SummarizedProblem'' = Some v \<longrightarrow> \<not> truthy v) \<longrightarrow>
            map_of (mergeOverlay rows parsed ! i) ''Summarized Problem'' = Some (JStr []))
       \<and> (map_of kvs ''Severity'' = Some s \<and> truthy s \<longrightarrow>
            map_of (mergeOverlay rows parsed ! i) ''Severity'' = Some s)
       \<and> ((\<forall>v. map_of kvs ''Severity'' = Some v \<longrightarrow> \<not> truthy v) \<longrightarrow>
            map_of (mergeOverlay rows parsed ! i) ''Severity'' = Some (JStr [])))
    \<and> (length parsed \<le> i \<or> (\<forall>kvs'. parsed ! i \<noteq> JObj kvs') \<longrightarrow>
         map_of (mergeOverlay rows parsed ! i) ''Module'' = Some (JStr [])
       \<and> map_of (mergeOverlay rows parsed ! i) ''Summarized Problem'' = Some (JStr [])
       \<and> map_of (mergeOverlay rows parsed ! i) ''Severity'' = Some (JStr []))"
proof -
  let ?res = "mergeOverlay rows parsed ! i"
  have res: "?res = mergeRow (rows ! i) (aiRecord parsed i)"
    using assms by (rule nth_mergeOverlay)
  have keys: "fst ` set (rows ! i) \<subseteq> fst ` set ?res"
    unfolding res by (auto simp: keys_mergeRow)
  have other: "\<forall>k. k \<notin> {''Module'', ''Summarized Problem'', ''Severity''} \<longrightarrow>
      map_of ?res k = map_of (rows ! i) k"
    unfolding res by (simp add: map_of_mergeRow_other)
  have obj: "(map_of kvs ''Module'' = Some m \<and> truthy m \<longrightarrow> map_of ?res ''Module'' = Some m)
       \<and> ((\<forall>v. map_of kvs ''Module'' = Some v \<longrightarrow> \<not> truthy v) \<longrightarrow>
            map_of ?res ''Module'' = Some (JStr []))
       \<and> (map_of kvs ''Summarized Problem'' = Some p \<and> truthy p \<longrightarrow>
            map_of ?res ''Summarized Problem'' = Some p)
       \<and> ((\<forall>v. map_of kvs ''Summarized Problem'' = Some v \<longrightarrow> \<not> truthy v) \<and>
            map_of kvs ''SummarizedProblem'' = Some a \<and> truthy a \<longrightarrow>
            map_of ?res ''Summarized Problem'' = Some a)
       \<and> ((\<forall>v. map_of kvs ''Summarized Problem'' = Some v \<longrightarrow> \<not> truthy v) \<and>
            (\<forall>v. map_of kvs ''SummarizedProblem'' = Some v \<longrightarrow> \<not> truthy v) \<longrightarrow>
            map_of ?res ''Summarized Problem'' = Some (JStr []))
       \<and> (map_of kvs ''Severity'' = Some s \<and> truthy s \<longrightarrow> map_of ?res ''Severity'' = Some s)
       \<and> ((\<forall>v. map_of kvs ''Severity'' = Some v \<longrightarrow> \<not> truthy v) \<longrightarrow>
            map_of ?res ''Severity'' = Some (JStr []))"
    if "i < length parsed \<and> parsed ! i = JObj kvs"
  proof -
    from that have ai: "aiRecord parsed i = JObj kvs" by (simp add: aiRecord_object)
    have m1: "map_of ?res ''Module'' = Some (orEmpty (map_of kvs ''Module''))"
      unfolding res ai by (simp add: map_of_mergeRow_Module)
    have s1: "map_of ?res ''Severity'' = Some (orEmpty (map_of kvs ''Severity''))"
      unfolding res ai by (simp add: map_of_mergeRow_Severity)
    have p1: "map_of ?res ''Summarized Problem'' =
        Some (orEmpty (orElse (map_of kvs ''Summarized Problem'') (map_of kvs ''SummarizedProblem'')))"
      unfolding res ai by (simp add: map_of_mergeRow_Summarized)
    show ?thesis
      unfolding m1 s1 p1
      by (intro conjI impI)
         (simp_all add: orEmpty_truthy orEmpty_falsy orElse_truthy orElse_falsy)
  qed
  have none: "map_of ?res ''Module'' = Some (JStr [])
       \<and> map_of ?res ''Summarized Problem'' = Some (JStr [])
       \<and> map_of ?res ''Severity'' = Some (JStr [])"
    if "length parsed \<le> i \<or> (\<forall>kvs'. parsed ! i \<noteq> JObj kvs')"
    unfolding res
    by (simp add: map_of_mergeRow_Module map_of_mergeRow_Summarized map_of_mergeRow_Severity
        getProp_aiRecord_none[OF that])
  from keys other obj none show ?thesis by blast
qed

text \<open>
  Two rows and one AI record: row 0 takes \<open>Module\<close> and the alias \<open>SummarizedProblem\<close>
  from the record and gets an empty \<open>Severity\<close> (the record's value \<open>0\<close> is falsy); row 1
  has no record.
\<close>

theorem overlay_row_witness:
  "map_of (mergeOverlay
       [[(''Title'', JStr ''t''), (''Severity'', JStr ''old'')], [(''Title'', JStr ''u'')]]
       [JObj [(''Module'', JStr ''Battery''), (''SummarizedProblem'', JStr ''s''),
              (''Severity'', JNum 0)]] ! 0) ''Title'' = Some (JStr ''t'')
   \<and> map_of (mergeOverlay
       [[(''Title'', JStr ''t''), (''Severity'', JStr ''old'')], [(''Title'', JStr ''u'')]]
       [JObj [(''Module'', JStr ''Battery''), (''SummarizedProblem'', JStr ''s''),
              (''Severity'', JNum 0)]] ! 0) ''Module'' = Some (JStr ''Battery'')
   \<and> map_of (mergeOverlay
       [[(''Title'', JStr ''t''), (''Severity'', JStr ''old'')], [(''Title'', JStr ''u'')]]
       [JObj [(''Module'', JStr ''Battery''), (''SummarizedProblem'', JStr ''s''),
              (''Severity'', JNum 0)]] ! 0) ''Summarized Problem'' = Some (JStr ''s'')
   \<and> map_of (mergeOverlay
       [[(''Title'', JStr ''t''), (''Severity'', JStr ''old'')], [(''Title'', JStr ''u'')]]
       [JObj [(''Module'', JStr ''Battery''), (''SummarizedProblem'', JStr ''s''),
              (''Severity'', JNum 0)]] ! 0) ''Severity'' = Some (JStr [])
   \<and> map_of (mergeOverlay
       [[(''Title'', JStr ''t''), (''Severity'', JStr ''old'')], [(''Title'', JStr ''u'')]]
       [JObj [(''Module'', JStr ''Battery''), (''SummarizedProblem'', JStr ''s''),
              (''Severity'', JNum 0)]] ! 1) ''Title'' = Some (JStr ''u'')
   \<and> map_of (mergeOverlay
       [[(''Title'', JStr ''t''), (''Severity'', JStr ''old'')], [(''Title'', JStr ''u'')]]
       [JObj [(''Module'', JStr ''Battery''), (''SummarizedProblem'', JStr ''s''),
              (''Severity'', JNum 0)]] ! 1) ''Module'' = Some (JStr [])"
proof -
  let ?R = "[[(''Title'', JStr ''t''), (''Severity'', JStr ''old'')], [(''Title'', JStr ''u'')]]"
  let ?kvs = "[(''Module'', JStr ''Battery''), (''SummarizedProblem'', JStr ''s''),
               (''Severity'', JNum 0)]"
  let ?P = "[JObj ?kvs]"
  have i0: "0 < length ?R" and i1: "1 < length ?R" by simp_all
  have t: "''Title'' \<notin> {''Module'', ''Summarized Problem'', ''Severity''}" by simp
  have o: "0 < length ?P \<and> ?P ! 0 = JObj ?kvs" by simp
  note t0 = overlay_row[OF i0, where parsed = ?P and kvs = ?kvs and m = "JStr ''Battery''"
      and a = "JStr ''s''"]
  note t1 = overlay_row[OF i1, where parsed = ?P]
  note obj0 = t0[THEN conjunct2, THEN conjunct2, THEN conjunct1, rule_format, OF o]
  have "map_of (mergeOverlay ?R ?P ! 0) ''Title'' = map_of (?R ! 0) ''Title''"
    by (rule t0[THEN conjunct2, THEN conjunct1, rule_format, OF t])
  then have e1: "map_of (mergeOverlay ?R ?P ! 0) ''Title'' = Some (JStr ''t'')" by simp
  have e2: "map_of (mergeOverlay ?R ?P ! 0) ''Module'' = Some (JStr ''Battery'')"
    by (rule obj0[THEN conjunct1, rule_format]) simp
  have e3: "map_of (mergeOverlay ?R ?P ! 0) ''Summarized Problem'' = Some (JStr ''s'')"
    by (rule obj0[THEN conjunct2, THEN conjunct2, THEN conjunct2, THEN conjunct1, rule_format])
       simp
  have e4: "map_of (mergeOverlay ?R ?P ! 0) ''Severity'' = Some (JStr [])"
    by (rule obj0[THEN conjunct2, THEN conjunct2, THEN conjunct2, THEN conjunct2,
          THEN conjunct2, THEN conjunct2, rule_format]) simp
  have "map_of (mergeOverlay ?R ?P ! 1) ''Title'' = map_of (?R ! 1) ''Title''"
    by (rule t1[THEN conjunct2, THEN conjunct1, rule_format, OF t])
  then have e5: "map_of (mergeOverlay ?R ?P ! 1) ''Title'' = Some (JStr ''u'')" by simp
  have a: "length ?P \<le> 1 \<or> (\<forall>kvs'. ?P ! 1 \<noteq> JObj kvs')" by simp
  have e6: "map_of (mergeOverlay ?R ?P ! 1) ''Module'' = Some (JStr [])"
    by (rule t1[THEN conjunct2, THEN conjunct2, THEN conjunct2, rule_format, OF a, THEN conjunct1])
  from e1 e2 e3 e4 e5 e6 show ?thesis by (intro conjI)
qed

text \<open>
  C3 as stated fails: a \<open>Severity Reason\<close> of the AI record is not copied, and the key is
  not set to the empty string when the record is absent; a record that lacks
  \<open>Summarized Problem\<close> but has \<open>SummarizedProblem\<close> does not give the empty string.
\<close>

theorem overlay_row_counterexample:
  "map_of (mergeOverlay [[(''Title'', JStr ''t'')]]
             [JObj [(''Severity Reason'', JStr ''r'')]] ! 0) ''Severity Reason'' = None
   \<and> map_of (mergeOverlay [[(''Title'', JStr ''t'')]] [] ! 0) ''Severity Reason'' = None
   \<and> map_of (mergeOverlay [[(''Title'', JStr ''t'')]]
             [JObj [(''SummarizedProblem'', JStr ''s'')]] ! 0) ''Summarized Problem''
       = Some (JStr ''s'')"
  by (simp add: mergeOverlay_def mergeRow_def aiRecord_def)

text \<open>
  C10. The overlay result has as many rows as the original sequence; AI records at
  indices from the row count on are ignored; a row whose AI element is missing or is not
  an object (null, a number, a string, a boolean, an array) is the original row with the
  three AI keys set to the empty string. The merge is a total function: no input makes it
  fail.
\<close>

theorem overlay_rows:
  "length (mergeOverlay rows parsed) = length rows
   \<and> mergeOverlay rows parsed = mergeOverlay rows (take (length rows) parsed)
   \<and> (\<forall>i < length rows. length parsed \<le> i \<or> \<not> isObject (parsed ! i) \<longrightarrow>
        mergeOverlay rows parsed ! i =
          setProp (setProp (setProp (rows ! i) ''Module'' (JStr [])) ''Summarized Problem'' (JStr []))
            ''Severity'' (JStr []))"
proof -
  have "mergeRow r ai = setProp (setProp (setProp r ''Module'' (JStr [])) ''Summarized Problem'' (JStr []))
            ''Severity'' (JStr [])" if "\<And>k. getProp ai k = None" for r ai
    using that by (simp add: mergeRow_def)
  moreover have "getProp (aiRecord parsed i) k = None"
    if "length parsed \<le> i \<or> \<not> isObject (parsed ! i)" for i k
    using that by (cases "i < length parsed") (auto simp: getProp_aiRecord_nonobject aiRecord_absent)
  ultimately show ?thesis
    by (simp add: length_mergeOverlay mergeOverlay_take nth_mergeOverlay)
qed

text \<open>Two rows against four AI elements: a number, null, and two objects that are dropped.\<close>

theorem overlay_rows_witness:
  "length (mergeOverlay [[(''Title'', JStr ''a'')], [(''Title'', JStr ''b'')]]
             [JNum 5, JNull, JObj [(''Module'', JStr ''X'')], JObj []]) = 2
   \<and> mergeOverlay [[(''Title'', JStr ''a'')], [(''Title'', JStr ''b'')]]
             [JNum 5, JNull, JObj [(''Module'', JStr ''X'')], JObj []]
       = mergeOverlay [[(''Title'', JStr ''a'')], [(''Title'', JStr ''b'')]] [JNum 5, JNull]
   \<and> mergeOverlay [[(''Title'', JStr ''a'')], [(''Title'', JStr ''b'')]]
             [JNum 5, JNull, JObj [(''Module'', JStr ''X'')], JObj []] ! 0
       = [(''Title'', JStr ''a''), (''Module'', JStr []), (''Summarized Problem'', JStr []),
          (''Severity'', JStr [])]
   \<and> mergeOverlay [[(''Title'', JStr ''a'')], [(''Title'', JStr ''b'')]]
             [JNum 5, JNull, JObj [(''Module'', JStr ''X'')], JObj []] ! 1
       = [(''Title'', JStr ''b''), (''Module'', JStr []), (''Summarized Problem'', JStr []),
          (''Severity'', JStr [])]"
proof -
  let ?R = "[[(''Title'', JStr ''a'')], [(''Title'', JStr ''b'')]]"
  let ?P = "[JNum 5, JNull, JObj [(''Module'', JStr ''X'')], JObj []]"
  note t = overlay_rows[of ?R ?P]
  have len: "length (mergeOverlay ?R ?P) = 2"
    using t[THEN conjunct1] by simp
  have tk: "mergeOverlay ?R ?P = mergeOverlay ?R [JNum 5, JNull]"
    using t[THEN conjunct2, THEN conjunct1] by simp
  note every = t[THEN conjunct2, THEN conjunct2, rule_format]
  have "mergeOverlay ?R ?P ! 0 =
      setProp (setProp (setProp (?R ! 0) ''Module'' (JStr [])) ''Summarized Problem'' (JStr []))
        ''Severity'' (JStr [])"
    by (rule every) simp_all
  then have r0: "mergeOverlay ?R ?P ! 0 = [(''Title'', JStr ''a''), (''Module'', JStr []),
      (''Summarized Problem'', JStr []), (''Severity'', JStr [])]"
    by simp
  have "mergeOverlay ?R ?P ! 1 =
      setProp (setProp (setProp (?R ! 1) ''Module'' (JStr [])) ''Summarized Problem'' (JStr []))
        ''Severity'' (JStr [])"
    by (rule every) simp_all
  then have r1: "mergeOverlay ?R ?P ! 1 = [(''Title'', JStr ''b''), (''Module'', JStr []),
      (''Summarized Problem'', JStr []), (''Severity'', JStr [])]"
    by simp
  from len tk r0 r1 show ?thesis by (intro conjI)
qed

text \<open>
  The end-to-end example of the specification: one row, the reply with prose around the
  array, and the merged row.
\<close>

lemma spec_example_overlay:
  \<open>map_sum id
     (\<lambda>parsed. case parsed of
          JArr records \<Rightarrow>
            mergeOverlay
              [[(''Title'', JStr ''[X][Y] battery drains fast''),
                (''Problem'', JStr ''loses 20% per hour'')]] records
        | _ \<Rightarrow> [])
     (parseAiResponse JSON_parse
       (''Sure, here is the result:'' @ [CHR 0x0A] @
        ''[{"Module":"Battery","Summarized Problem":"Battery drains rapidly, losing about 20% per hour.","Severity":"High"}]'' @
        [CHR 0x0A] @ ''Let me know if you need more.''))
   = Inr [[(''Title'', JStr ''[X][Y] battery drains fast''),
           (''Problem'', JStr ''loses 20% per hour''),
           (''Module'', JStr ''Battery''),
           (''Summarized Problem'', JStr ''Battery drains rapidly, losing about 20% per hour.''),
           (''Severity'', JStr ''High'')]]\<close>
  by (simp add: parseAiResponse_def trim_def isWhiteSpace_def substring_def JSON_parse_def
      isJsonWs_def mergeOverlay_def mergeRow_def aiRecord_def)

section \<open>The replace policy\<close>

text \<open>
  C4. Under the replace policy the merged value is the parsed AI value itself, and what
  \<open>processExcel\<close> hands to the encoder is the outcome of the extraction whatever the
  original rows are: their number is never compared with the number of AI records.
\<close>

theorem replace_verbatim:
  "mergeReplace rows parsed = parsed
   \<and> processExcel_merged parse rows modelResult = parseAiResponse parse modelResult"
  by (simp add: mergeReplace_def processExcel_merged_def split: sum.splits)

section \<open>Facts about the file name and the path\<close>

declare showNat.simps [simp del]


























lemma processedPath_example: "processedPath ''out.xlsx'' = ''downloads/out.xlsx''"
  by (simp add: processedPath_def path_join_def path_normalize_def normalizeString_def)

section \<open>The output file name\<close>




text \<open>
  The copy of the server in \<open>part_000\<close> names the file otherwise, without the model id:
  \<open>processed-\<close>, the time in milliseconds, \<open>-\<close>, the original name.
\<close>

lemma processedFilename_part000_example:
  "processedFilename_part000 1700000000123 ''report.xlsx'' = ''processed-1700000000123-report.xlsx''"
  by (simp add: processedFilename_part000_def showNat.simps digitChar_def)

section \<open>The reply of the backend\<close>

text \<open>
  C6. The handler of \<open>part_000\<close> rejects an empty or blank reply text; the two handlers
  of \<open>server.js\<close> do not: on a body whose \<open>response\<close> is blank or empty they resolve with
  that text.
\<close>

theorem callOllama_server_resolves_blank:
  \<open>callOllama_server JSON_parse ''{"response":"  "}'' = Inr (JStr ''  '')
   \<and> callOllama_server_first JSON_parse ''{"response":""}'' = Inr (Some (JStr ''''))\<close>
  by (simp add: callOllama_server_def callOllama_server_first_def JSON_parse_def isJsonWs_def)

text \<open>
  The handler of \<open>part_000\<close>: when the parsed body has no \<open>error\<close> field and the text
  taken from it is a blank string, the call is rejected with \<open>EmptyReply\<close>.
\<close>

lemma callOllama_part000_rejects_blank:
  assumes "parse responseData = Some jsonResponse"
    and "getProp jsonResponse ''error'' = None"
    and "jsonResponse \<noteq> JNull"
    and "coalesce (getProp jsonResponse ''response'')
           (coalesce (getProp jsonResponse ''output'')
              (coalesce (getProp jsonResponse ''result'') (JStr responseData))) = JStr text"
    and "trim text = []"
  shows "callOllama_part000 parse responseData = Inl EmptyReply"
  using assms by (simp add: callOllama_part000_def replyOf_def)

lemma callOllama_part000_example:
  \<open>callOllama_part000 JSON_parse ''{"response":"  "}'' = Inl EmptyReply\<close>
  by (simp add: callOllama_part000_def replyOf_def JSON_parse_def isJsonWs_def trim_def
      isWhiteSpace_def)

section \<open>Writing the result and removing the upload\<close>

text \<open>
  C8, as amended. After the output file is written, the removal of the uploaded file is
  attempted. When it succeeds the upload is gone and the response is the success
  response. When it fails, the failure is logged and the request fails: the response is
  the status 500 with the error's message, although the output file has been written.
\<close>

theorem cleanup_failure_fails_request:
  assumes "writeFileSync fs (processedPath name) buf = Inr fs1"
  shows "(unlinkSync fs1 uploadedPath = Inr fs2 \<longrightarrow>
            storeAndRespond fs uploadedPath name buf = (fs2, [], Success (downloadUrl name) name)
            \<and> files fs2 uploadedPath = None)
       \<and> (unlinkSync fs1 uploadedPath = Inl e \<longrightarrow>
            storeAndRespond fs uploadedPath name buf = (fs1, [e], Failure 500 (errorBody e))
            \<and> files fs1 (processedPath name) = Some buf)"
  using assms
  by (auto simp: storeAndRespond_def unlinkSync_def writeFileSync_def split: if_splits)

theorem cleanup_failure_fails_request_witness:
  "snd (storeAndRespond
     \<lparr>files = [''uploads/1-in.xlsx'' \<mapsto> ''x''], writeDenied = {}, unlinkDenied = {}\<rparr>
     ''uploads/1-in.xlsx'' ''out.xlsx'' ''bytes'')
     = ([], Success ''/downloads/out.xlsx'' ''out.xlsx'')
   \<and> files (fst (storeAndRespond
     \<lparr>files = [''uploads/1-in.xlsx'' \<mapsto> ''x''], writeDenied = {}, unlinkDenied = {}\<rparr>
     ''uploads/1-in.xlsx'' ''out.xlsx'' ''bytes'')) ''uploads/1-in.xlsx'' = None
   \<and> snd (storeAndRespond
     \<lparr>files = Map.empty, writeDenied = {}, unlinkDenied = {}\<rparr>
     ''uploads/1-in.xlsx'' ''out.xlsx'' ''bytes'')
     = ([FsError ''ENOENT: no such file or directory''],
        Failure 500 ''ENOENT: no such file or directory'')"
proof -
  let ?fs = "\<lparr>files = [''uploads/1-in.xlsx'' \<mapsto> ''x''], writeDenied = {}, unlinkDenied = {}\<rparr>"
  let ?fs1 = "\<lparr>files = [''uploads/1-in.xlsx'' \<mapsto> ''x'', ''downloads/out.xlsx'' \<mapsto> ''bytes''],
                writeDenied = {}, unlinkDenied = {}\<rparr>"
  let ?fs2 = "\<lparr>files = [''downloads/out.xlsx'' \<mapsto> ''bytes''],
                writeDenied = {}, unlinkDenied = {}\<rparr>"
  let ?gs = "\<lparr>files = Map.empty, writeDenied = {}, unlinkDenied = {}\<rparr>"
  let ?gs1 = "\<lparr>files = [''downloads/out.xlsx'' \<mapsto> ''bytes''],
                writeDenied = {}, unlinkDenied = {}\<rparr>"
  have w: "writeFileSync ?fs (processedPath ''out.xlsx'') ''bytes'' = Inr ?fs1"
    by (simp add: writeFileSync_def processedPath_example)
  have u: "unlinkSync ?fs1 ''uploads/1-in.xlsx'' = Inr ?fs2"
    by (simp add: unlinkSync_def fun_eq_iff)
  have w': "writeFileSync ?gs (processedPath ''out.xlsx'') ''bytes'' = Inr ?gs1"
    by (simp add: writeFileSync_def processedPath_example)
  have u': "unlinkSync ?gs1 ''uploads/1-in.xlsx'' = Inl (FsError ''ENOENT: no such file or directory'')"
    by (simp add: unlinkSync_def)
  have ok: "storeAndRespond ?fs ''uploads/1-in.xlsx'' ''out.xlsx'' ''bytes''
      = (?fs2, [], Success (downloadUrl ''out.xlsx'') ''out.xlsx'')"
    using cleanup_failure_fails_request[OF w, of "''uploads/1-in.xlsx''" ?fs2] u by blast
  have ko: "storeAndRespond ?gs ''uploads/1-in.xlsx'' ''out.xlsx'' ''bytes''
      = (?gs1, [FsError ''ENOENT: no such file or directory''],
         Failure 500 (errorBody (FsError ''ENOENT: no such file or directory'')))"
    using cleanup_failure_fails_request[OF w', where uploadedPath = "''uploads/1-in.xlsx''"
        and e = "FsError ''ENOENT: no such file or directory''"] u' by blast
  show ?thesis
    unfolding ok ko by (simp add: downloadUrl_def errorBody_def)
qed

text \<open>
  C8 as stated fails: with an upload that the platform refuses to remove, the output
  file is written and the response is the failure with status 500.
\<close>

theorem cleanup_failure_fails_request_counterexample:
  "snd (storeAndRespond
     \<lparr>files = [''uploads/1-in.xlsx'' \<mapsto> ''x''], writeDenied = {},
        unlinkDenied = {''uploads/1-in.xlsx''}\<rparr>
     ''uploads/1-in.xlsx'' ''out.xlsx'' ''bytes'')
     = ([FsError ''EPERM: operation not permitted''],
        Failure 500 ''EPERM: operation not permitted'')
   \<and> files (fst (storeAndRespond
     \<lparr>files = [''uploads/1-in.xlsx'' \<mapsto> ''x''], writeDenied = {},
        unlinkDenied = {''uploads/1-in.xlsx''}\<rparr>
     ''uploads/1-in.xlsx'' ''out.xlsx'' ''bytes'')) ''downloads/out.xlsx'' = Some ''bytes''"
  by (simp add: storeAndRespond_def writeFileSync_def unlinkSync_def processedPath_example
      errorBody_def)

section \<open>Facts about the codec\<close>

lemma set_add_new:
  "set (foldl (\<lambda>acc k. if k \<in> set acc then acc else acc @ [k]) hs ks) = set hs \<union> set ks"
  by (induction ks arbitrary: hs) auto

lemma set_addKeys: "set (addKeys hs row) = set hs \<union> fst ` set row"
  by (simp add: addKeys_def set_add_new)

lemma set_foldl_addKeys: "set (foldl addKeys hs rows) = set hs \<union> (\<Union>row\<in>set rows. fst ` set row)"
  by (induction rows arbitrary: hs) (auto simp: set_addKeys)

lemma keys_decode_fold:
  "fst ` set (foldl (\<lambda>row j. setProp row (hdr ! j) (cellAt cells j)) acc js) =
   fst ` set acc \<union> (\<lambda>j. hdr ! j) ` set js"
  by (induction js arbitrary: acc) (auto simp: keys_setProp)

lemma keys_decodeRow: "fst ` set (decodeRow hdr cells) = set hdr"
proof -
  have "fst ` set (decodeRow hdr cells) = (\<lambda>j. hdr ! j) ` set [0..<length hdr]"
    unfolding decodeRow_def keys_decode_fold by simp
  also have "\<dots> = set (map (\<lambda>j. hdr ! j) [0..<length hdr])" by simp
  also have "\<dots> = set hdr" by (simp only: map_nth)
  finally show ?thesis .
qed

lemma length_body_encodeSheet: "length (body (encodeSheet rows)) = length rows"
  by (simp add: encodeSheet_def Let_def)

lemma header_encodeSheet: "set (header (encodeSheet rows)) = (\<Union>row\<in>set rows. fst ` set row)"
  by (simp add: encodeSheet_def Let_def set_foldl_addKeys)

section \<open>The round trip through the codec\<close>

text \<open>
  C9, as amended. Encoding the result of decoding a workbook gives one sheet with as
  many data rows as the first sheet of the workbook has. When that sheet has at least
  one data row, the columns of the encoded sheet include every column of its header;
  when it has none, the encoded sheet has no column at all.
\<close>

theorem codec_round_trip:
  "encode (decode (sh # others)) = [encodeSheet (decode (sh # others))]
   \<and> length (body (encodeSheet (decode (sh # others)))) = length (body sh)
   \<and> (body sh \<noteq> [] \<longrightarrow> set (header sh) \<subseteq> set (header (encodeSheet (decode (sh # others)))))
   \<and> (body sh = [] \<longrightarrow> header (encodeSheet (decode (sh # others))) = [])"
proof -
  have d: "decode (sh # others) = map (decodeRow (header sh)) (body sh)"
    by (simp add: decode_def)
  have a: "length (body (encodeSheet (decode (sh # others)))) = length (body sh)"
    by (simp add: d length_body_encodeSheet)
  have b: "set (header sh) \<subseteq> set (header (encodeSheet (decode (sh # others))))" if "body sh \<noteq> []"
  proof -
    from that obtain c cs where "body sh = c # cs" by (cases "body sh") auto
    then show ?thesis by (simp add: d header_encodeSheet keys_decodeRow)
  qed
  have c: "header (encodeSheet (decode (sh # others))) = []" if "body sh = []"
    using that by (simp add: d encodeSheet_def)
  from a b c show ?thesis by (simp add: encode_def)
qed

theorem codec_round_trip_witness:
  "length (body (encodeSheet (decode
      [\<lparr>header = [''Title'', ''Problem''],
         body = [[Some (JStr ''a'')], [None, Some (JNum 2)]]\<rparr>]))) = 2
   \<and> set [''Title'', ''Problem''] \<subseteq> set (header (encodeSheet (decode
      [\<lparr>header = [''Title'', ''Problem''],
         body = [[Some (JStr ''a'')], [None, Some (JNum 2)]]\<rparr>])))"
proof -
  let ?sh = "\<lparr>header = [''Title'', ''Problem''],
               body = [[Some (JStr ''a'')], [None, Some (JNum 2)]]\<rparr>"
  note t = codec_round_trip[of ?sh "[]"]
  have ne: "body ?sh \<noteq> []" by simp
  have a: "length (body (encodeSheet (decode [?sh]))) = 2"
    using t[THEN conjunct2, THEN conjunct1] by simp
  have b: "set (header ?sh) \<subseteq> set (header (encodeSheet (decode [?sh])))"
    using t[THEN conjunct2, THEN conjunct2, THEN conjunct1] ne by blast
  from a b show ?thesis by simp
qed

text \<open>
  C9 as stated fails on a sheet with a header and no data row: nothing is decoded, and
  the encoded sheet has lost the column.
\<close>

theorem codec_round_trip_counterexample:
  "header (encodeSheet (decode [\<lparr>header = [''Title''], body = []\<rparr>])) = []
   \<and> ''Title'' \<notin> set (header (encodeSheet (decode [\<lparr>header = [''Title''], body = []\<rparr>])))"
  by (simp add: decode_def encodeSheet_def)

end
